theory Spec2Isabelle
  imports Main "HOL-Library.Word" "HOL-Library.Char_ord" "HOL-Library.List_Lexorder"
    "HOL-Library.Multiset"
begin

unbundle bit_operations_syntax

section \<open>Kernel version matching (main.cpp)\<close>

subsection \<open>Decimal output of an unsigned value\<close>

text \<open>
  \<^verbatim>\<open>oss << (page_size / 1024)\<close> writes a \<^verbatim>\<open>size_t\<close> in decimal, without sign or
  padding.
\<close>

definition digit_char :: "nat \<Rightarrow> char" where
  "digit_char d = char_of (48 + d)"

fun show_nat :: "nat \<Rightarrow> string" where
  "show_nat n = (if n < 10 then [digit_char n] else show_nat (n div 10) @ [digit_char (n mod 10)])"

declare show_nat.simps [simp del]

subsection \<open>GetPageSizeSuffix\<close>

text \<open>
  \<^verbatim>\<open>page_size\<close> is the \<^verbatim>\<open>size_t\<close> obtained from \<^verbatim>\<open>sysconf(_SC_PAGE_SIZE)\<close>; it is an
  input of the model. The division is the unsigned division of \<^verbatim>\<open>size_t\<close>.
\<close>

definition GetPageSizeSuffix :: "64 word \<Rightarrow> string" where
  "GetPageSizeSuffix page_size =
     (if page_size \<le> 4096 then ''''
      else ''_'' @ show_nat (unat (page_size div 1024)) @ ''k'')"

subsection \<open>The two-integer scan \<^verbatim>\<open>sscanf(s, "%d.%d", &a, &b)\<close>\<close>

text \<open>
  \<^verbatim>\<open>sscanf\<close> belongs to the C library. The model follows ISO C for the format
  \<^verbatim>\<open>"%d.%d"\<close> in the "C" locale: \<^verbatim>\<open>%d\<close> skips white space, accepts one optional sign and
  then needs at least one decimal digit; the \<^verbatim>\<open>.\<close> of the format must be the next input
  character. The end of the string before a directive could read anything is an input
  failure, any other mismatch a matching failure. The call returns the number of
  assignments made, or \<^verbatim>\<open>EOF\<close> (-1) when an input failure comes before the first
  conversion. Variables that are not assigned keep their old values.

  A value that does not fit an \<^verbatim>\<open>int\<close> is stored the way glibc on a 64-bit host stores
  it: the digits are converted as by \<^verbatim>\<open>strtol\<close> (clamped to the range of \<^verbatim>\<open>long\<close>) and the
  result is cut to 32 bits.
\<close>

definition isspace_c :: "char \<Rightarrow> bool" where
  "isspace_c c \<longleftrightarrow> c \<in> set [CHR '' '', CHR 0x09, CHR 0x0A, CHR 0x0B, CHR 0x0C, CHR 0x0D]"

definition isdigit_c :: "char \<Rightarrow> bool" where
  "isdigit_c c \<longleftrightarrow> c \<in> set ''0123456789''"

definition digit_val :: "char \<Rightarrow> int" where
  "digit_val c = int (of_char c) - 48"

fun digits_val :: "int \<Rightarrow> string \<Rightarrow> int" where
  "digits_val acc [] = acc"
| "digits_val acc (c # cs) = digits_val (acc * 10 + digit_val c) cs"

definition LONG_MAX :: int where
  "LONG_MAX = 2 ^ 63 - 1"

definition LONG_MIN :: int where
  "LONG_MIN = - (2 ^ 63)"

definition store_int :: "int \<Rightarrow> 32 word" where
  "store_int v = word_of_int (max LONG_MIN (min LONG_MAX v))"

datatype scan_result = Converted "32 word" string | MatchingFailure | InputFailure

definition scan_d :: "string \<Rightarrow> scan_result" where
  "scan_d s =
     (case dropWhile isspace_c s of
        [] \<Rightarrow> InputFailure
      | c # r \<Rightarrow>
          let negative = (c = CHR ''-'');
              body = (if c = CHR ''-'' \<or> c = CHR ''+'' then r else c # r);
              ds = takeWhile isdigit_c body
          in if ds = [] then MatchingFailure
             else Converted (store_int (if negative then - digits_val 0 ds else digits_val 0 ds))
                    (dropWhile isdigit_c body))"

definition EOF :: int where
  "EOF = - 1"

definition sscanf_d_dot_d :: "string \<Rightarrow> 32 word \<Rightarrow> 32 word \<Rightarrow> int \<times> 32 word \<times> 32 word" where
  "sscanf_d_dot_d s a b =
     (case scan_d s of
        InputFailure \<Rightarrow> (EOF, a, b)
      | MatchingFailure \<Rightarrow> (0, a, b)
      | Converted a' rest \<Rightarrow>
          (case rest of
             [] \<Rightarrow> (1, a', b)
           | c # rest' \<Rightarrow>
               if c \<noteq> CHR ''.'' then (1, a', b)
               else (case scan_d rest' of
                       Converted b' _ \<Rightarrow> (2, a', b')
                     | _ \<Rightarrow> (1, a', b))))"

section \<open>Directory selection (main.cpp, LoadKernelModules, lines 63 to 100)\<close>

datatype file_type =
  DT_UNKNOWN | DT_FIFO | DT_CHR | DT_DIR | DT_BLK | DT_REG | DT_LNK | DT_SOCK | DT_WHT

record dirent =
  d_name :: string
  d_type :: file_type

text \<open>
  The \<^verbatim>\<open>readdir\<close> loop. \<^verbatim>\<open>entries\<close> is what \<^verbatim>\<open>readdir\<close> still has to return, in its
  order; \<^verbatim>\<open>module_dirs\<close> is the vector built so far. \<^verbatim>\<open>continue\<close> is the recursive
  call on the same vector, \<^verbatim>\<open>break\<close> returns at once. The three tests joined by
  \<^verbatim>\<open>||\<close> are evaluated left to right, as C does.
\<close>

fun select_module_dirs ::
  "64 word \<Rightarrow> string \<Rightarrow> string \<Rightarrow> 32 word \<Rightarrow> 32 word \<Rightarrow> dirent list \<Rightarrow> string list
     \<Rightarrow> string list" where
  "select_module_dirs page_size page_size_suffix release_specific_module_dir major minor
       [] module_dirs = module_dirs"
| "select_module_dirs page_size page_size_suffix release_specific_module_dir major minor
       (entry # entries) module_dirs =
     (if d_type entry \<noteq> DT_DIR then
        select_module_dirs page_size page_size_suffix release_specific_module_dir major minor
          entries module_dirs
      else if d_name entry = release_specific_module_dir then [d_name entry]
      else
        let dir_page_size_suffix = GetPageSizeSuffix page_size in
        if dir_page_size_suffix \<noteq> [] \<and> dir_page_size_suffix \<noteq> page_size_suffix then
          select_module_dirs page_size page_size_suffix release_specific_module_dir major minor
            entries module_dirs
        else
          (case sscanf_d_dot_d (d_name entry) 0 0 of
             (n, dir_major, dir_minor) \<Rightarrow>
               if n \<noteq> 2 then
                 select_module_dirs page_size page_size_suffix release_specific_module_dir
                   major minor entries module_dirs
               else if dir_major \<noteq> major then
                 select_module_dirs page_size page_size_suffix release_specific_module_dir
                   major minor entries module_dirs
               else if dir_minor \<noteq> minor then
                 select_module_dirs page_size page_size_suffix release_specific_module_dir
                   major minor entries module_dirs
               else
                 select_module_dirs page_size page_size_suffix release_specific_module_dir
                   major minor entries (module_dirs @ [d_name entry])))"

text \<open>
  The part of \<^verbatim>\<open>LoadKernelModules\<close> that computes the sorted candidate list from the
  release string of \<^verbatim>\<open>uname\<close> (empty when \<^verbatim>\<open>uname\<close> failed: \<^verbatim>\<open>uts\<close> is zero-initialised),
  the page size and the directory entries. \<^verbatim>\<open>std::sort\<close> orders \<^verbatim>\<open>std::string\<close>s
  lexicographically by character code.
\<close>

definition candidate_dirs :: "string \<Rightarrow> 64 word \<Rightarrow> dirent list \<Rightarrow> string list" where
  "candidate_dirs release page_size entries =
     (case sscanf_d_dot_d release 0 0 of
        (n, major, minor) \<Rightarrow>
          let page_size_suffix = GetPageSizeSuffix page_size;
              release_specific_module_dir = release @ page_size_suffix
          in sort (select_module_dirs page_size page_size_suffix release_specific_module_dir
                     major minor entries []))"

section \<open>Load strategy (main.cpp, LoadKernelModules, lines 102 to 123)\<close>

text \<open>
  The class \<^verbatim>\<open>Modprobe\<close> is declared in \<^verbatim>\<open>modprobe.h\<close>; its constructor and the methods
  \<^verbatim>\<open>LoadListedModules\<close>, \<^verbatim>\<open>LoadModulesParallel\<close> and \<^verbatim>\<open>GetModuleCount\<close> are not part of
  the two source files. They are parameters of the model, as are the system calls. What
  they answer may depend on everything done before, so they read and change a world
  \<^typ>\<open>'w\<close> that the model threads through the calls in program order.

  \<^item> \<open>uname_release\<close>: the release string filled in by \<^verbatim>\<open>uname\<close>, \<open>None\<close> when the call
    failed;
  \<^item> \<open>sc_page_size\<close>: \<^verbatim>\<open>sysconf(_SC_PAGE_SIZE)\<close> converted to \<^verbatim>\<open>size_t\<close>;
  \<^item> \<open>opendir_base\<close>: \<open>None\<close> when \<^verbatim>\<open>opendir("/lib/modules")\<close> returned null, otherwise
    the entries \<^verbatim>\<open>readdir\<close> returns until it returns null;
  \<^item> \<open>hardware_concurrency\<close>: the value of \<^verbatim>\<open>std::thread::hardware_concurrency()\<close>;
  \<^item> \<open>stat_fails path\<close>: \<^verbatim>\<open>stat(path, &fileStat)\<close> returned non-zero;
  \<^item> \<open>LoadListedModules dir file\<close>: build \<^verbatim>\<open>Modprobe m({dir}, file)\<close>, call
    \<^verbatim>\<open>m.LoadListedModules()\<close>, and read \<^verbatim>\<open>m.GetModuleCount()\<close>; the answer is the pair
    of both results;
  \<^item> \<open>LoadModulesParallel dir file n\<close>: the same with \<^verbatim>\<open>m.LoadModulesParallel(n)\<close>.
\<close>

record 'w host =
  uname_release :: "string option"
  sc_page_size :: "64 word"
  opendir_base :: "dirent list option"
  hardware_concurrency :: "32 word"
  stat_fails :: "string \<Rightarrow> 'w \<Rightarrow> bool"
  LoadListedModules :: "string \<Rightarrow> string \<Rightarrow> 'w \<Rightarrow> (bool \<times> 32 word) \<times> 'w"
  LoadModulesParallel :: "string \<Rightarrow> string \<Rightarrow> 32 word \<Rightarrow> 'w \<Rightarrow> (bool \<times> 32 word) \<times> 'w"

text \<open>
  Every load that \<^verbatim>\<open>LoadKernelModules\<close> starts is written to a log, with its arguments
  and with what it answered (return value and module count).
\<close>

datatype load_event =
  ListedLoad string string bool "32 word"
| ParallelLoad string string "32 word" bool "32 word"

fun is_listed :: "load_event \<Rightarrow> bool" where
  "is_listed (ListedLoad dir file retval n) = True"
| "is_listed (ParallelLoad dir file threads retval n) = False"

fun is_parallel :: "load_event \<Rightarrow> bool" where
  "is_parallel (ListedLoad dir file retval n) = False"
| "is_parallel (ParallelLoad dir file threads retval n) = True"

fun event_dir :: "load_event \<Rightarrow> string" where
  "event_dir (ListedLoad dir file retval n) = dir"
| "event_dir (ParallelLoad dir file threads retval n) = dir"

fun event_count :: "load_event \<Rightarrow> 32 word" where
  "event_count (ListedLoad dir file retval n) = n"
| "event_count (ParallelLoad dir file threads retval n) = n"

fun event_retval :: "load_event \<Rightarrow> bool" where
  "event_retval (ListedLoad dir file retval n) = retval"
| "event_retval (ParallelLoad dir file threads retval n) = retval"

definition MODULE_BASE_DIR :: string where
  "MODULE_BASE_DIR = ''/lib/modules''"

definition GetModuleLoadList :: "'w host \<Rightarrow> string \<Rightarrow> 'w \<Rightarrow> string" where
  "GetModuleLoadList H dir_path w =
     (let recovery_load_path = dir_path @ ''/'' @ ''modules.load.recovery''
      in if stat_fails H recovery_load_path w then ''modules.load''
         else ''modules.load.recovery'')"

text \<open>
  The loop over \<^verbatim>\<open>module_dirs\<close>. The first component of the result is \<open>Some retval\<close>
  when the loop left the function through its \<^verbatim>\<open>return retval\<close>, and \<open>None\<close> when the
  loop ran to its end. \<^verbatim>\<open>modules_loaded\<close> is the caller's \<^verbatim>\<open>int\<close>, compared as a signed
  value.
\<close>

fun load_listed_dirs ::
  "'w host \<Rightarrow> string list \<Rightarrow> 32 word \<Rightarrow> 'w \<Rightarrow> load_event list
     \<Rightarrow> bool option \<times> 32 word \<times> 'w \<times> load_event list" where
  "load_listed_dirs H [] modules_loaded w log = (None, modules_loaded, w, log)"
| "load_listed_dirs H (module_dir # module_dirs) modules_loaded w log =
     (let dir_path = MODULE_BASE_DIR @ ''/'' @ module_dir;
          load_file = GetModuleLoadList H dir_path w
      in case LoadListedModules H dir_path load_file w of
           ((retval, n), w') \<Rightarrow>
             (let log' = log @ [ListedLoad dir_path load_file retval n]
              in if 0 <s n then (Some retval, n, w', log')
                 else load_listed_dirs H module_dirs n w' log'))"

text \<open>
  \<^verbatim>\<open>uts\<close> is zero-initialised, so \<^verbatim>\<open>uts.release\<close> is the empty string when \<^verbatim>\<open>uname\<close>
  failed; the function goes on in that case.

  \<^verbatim>\<open>LoadKernelModules(modules_loaded)\<close>: the result is the return value, the final value of
  the reference parameter, the world and the log of the loads. Output to \<^verbatim>\<open>std::cout\<close> is
  not modelled.
\<close>

definition uts_release :: "'w host \<Rightarrow> string" where
  "uts_release H = (case uname_release H of None \<Rightarrow> [] | Some r \<Rightarrow> r)"

definition LoadKernelModules ::
  "'w host \<Rightarrow> 32 word \<Rightarrow> 'w \<Rightarrow> bool \<times> 32 word \<times> 'w \<times> load_event list" where
  "LoadKernelModules H modules_loaded w =
     (let release = uts_release H
      in case opendir_base H of
           None \<Rightarrow> (True, modules_loaded, w, [])
         | Some entries \<Rightarrow>
             (let module_dirs = candidate_dirs release (sc_page_size H) entries
              in case load_listed_dirs H module_dirs modules_loaded w [] of
                   (Some retval, modules_loaded', w', log) \<Rightarrow>
                     (retval, modules_loaded', w', log)
                 | (None, modules_loaded', w', log) \<Rightarrow>
                     (let load_file = GetModuleLoadList H MODULE_BASE_DIR w'
                      in case LoadModulesParallel H MODULE_BASE_DIR load_file
                                (hardware_concurrency H) w' of
                           ((retval, n), w'') \<Rightarrow>
                             (let log' = log @ [ParallelLoad MODULE_BASE_DIR load_file
                                                  (hardware_concurrency H) retval n]
                              in if 0 <s n then (retval, n, w'', log')
                                 else (True, n, w'', log')))))"

section \<open>Module loader and registry (libmodprobe\_ext.cpp)\<close>

text \<open>
  The fields of \<^verbatim>\<open>Modprobe\<close> that the three methods read or write. Their declarations are
  in \<^verbatim>\<open>modprobe.h\<close>, which is not among the sources: the two \<^verbatim>\<open>module_loaded\<close> containers
  are used as sets (\<^verbatim>\<open>emplace\<close>, \<^verbatim>\<open>erase\<close>), \<^verbatim>\<open>module_blocklist_\<close> as a set (\<^verbatim>\<open>count\<close>),
  \<^verbatim>\<open>module_options_\<close> as a map (\<^verbatim>\<open>find\<close>, \<^verbatim>\<open>->second\<close>), and \<^verbatim>\<open>module_count_\<close> is the
  counter that \<^verbatim>\<open>main.cpp\<close> reads into an \<^verbatim>\<open>int\<close>. The mutex \<^verbatim>\<open>module_loaded_lock_\<close> has
  no part in a sequential model.
\<close>

record modprobe =
  module_options :: "string \<rightharpoonup> string"
  module_blocklist :: "string set"
  blocklist_enabled :: bool
  module_loaded_paths :: "string set"
  module_loaded :: "string set"
  module_count :: "32 word"

text \<open>
  \<^verbatim>\<open>MakeCanonical\<close> and \<^verbatim>\<open>GetDependencies\<close> are methods of \<^verbatim>\<open>Modprobe\<close> defined outside
  the two source files; they are parameters. The kernel and the file system are
  parameters too:
  \<^item> \<open>open_retry path\<close>: for the \<^verbatim>\<open>std::string\<close> \<open>path\<close>, the value of
    \<^verbatim>\<open>TEMP_FAILURE_RETRY(open(path.c_str(), O_RDONLY | O_NOFOLLOW | O_CLOEXEC))\<close>;
  \<^item> \<open>finit_module fd options flags\<close>: for the C string \<open>options\<close> that the kernel
    receives, the return value of the system call and the \<^verbatim>\<open>errno\<close> it leaves;
  \<^item> \<open>delete_module name flags\<close>: for the \<^verbatim>\<open>std::string\<close> \<open>name\<close>, the return value of
    the system call on \<^verbatim>\<open>name.c_str()\<close>;
  \<^item> \<open>stat_file path\<close>: for the \<^verbatim>\<open>std::string\<close> \<open>path\<close>, the return value of \<^verbatim>\<open>stat\<close> on
    \<^verbatim>\<open>path.c_str()\<close> and the \<^verbatim>\<open>st_mode\<close> it fills in.
\<close>

record resolver =
  MakeCanonical :: "string \<Rightarrow> string"
  GetDependencies :: "string \<Rightarrow> string list"

record kernel =
  open_retry :: "string \<Rightarrow> int"
  finit_module :: "int \<Rightarrow> string \<Rightarrow> int \<Rightarrow> int \<times> int"
  delete_module :: "string \<Rightarrow> int \<Rightarrow> int"
  stat_file :: "string \<Rightarrow> int \<times> 32 word"

text \<open>Every call that leaves the method is logged with its arguments and its answer.\<close>

datatype call =
  CallOpen string int
| CallMakeCanonical string string
| CallFinitModule int string int int int
| CallDeleteModule string int int
| CallGetDependencies string "string list"
| CallStat string int "32 word"

fun finit_options :: "call list \<Rightarrow> string list" where
  "finit_options [] = []"
| "finit_options (CallFinitModule fd options flags ret err # cs) = options # finit_options cs"
| "finit_options (c # cs) = finit_options cs"

definition EEXIST :: int where
  "EEXIST = 17"

definition O_NONBLOCK :: int where
  "O_NONBLOCK = 0x800"

definition S_ISREG :: "32 word \<Rightarrow> bool" where
  "S_ISREG st_mode \<longleftrightarrow> st_mode AND 0xF000 = 0x8000"

text \<open>
  A \<^verbatim>\<open>std::string\<close> may hold any byte, the NUL byte too. \<^verbatim>\<open>s.c_str()\<close> is read by its
  receiver as a C string: the bytes of \<open>s\<close> before its first NUL byte.
\<close>

definition c_str :: "string \<Rightarrow> string" where
  "c_str s = takeWhile (\<lambda>c. c \<noteq> CHR 0x00) s"

text \<open>
  \<^verbatim>\<open>Insmod\<close> composes \<^verbatim>\<open>options\<close> as a \<^verbatim>\<open>std::string\<close> and hands \<^verbatim>\<open>options.c_str()\<close> to
  \<^verbatim>\<open>finit_module\<close>: the kernel receives, and the log records, the C string.
\<close>

definition Insmod ::
  "kernel \<Rightarrow> resolver \<Rightarrow> string \<Rightarrow> string \<Rightarrow> modprobe \<Rightarrow> bool \<times> modprobe \<times> call list" where
  "Insmod K R path_name parameters m =
     (let fd = open_retry K path_name;
          log1 = [CallOpen path_name fd]
      in if fd = - 1 then (False, m, log1)
         else
           let canonical_name = MakeCanonical R path_name;
               log2 = log1 @ [CallMakeCanonical path_name canonical_name];
               options = (case module_options m canonical_name of
                            None \<Rightarrow> ''''
                          | Some configured \<Rightarrow> configured);
               options = (if parameters \<noteq> [] then options @ '' '' @ parameters else options)
           in case finit_module K fd (c_str options) 0 of
                (ret, errno) \<Rightarrow>
                  let log3 = log2 @ [CallFinitModule fd (c_str options) 0 ret errno]
                  in if ret \<noteq> 0 then
                       if errno = EEXIST then
                         (True,
                          m\<lparr>module_loaded_paths := insert path_name (module_loaded_paths m),
                            module_loaded := insert canonical_name (module_loaded m)\<rparr>,
                          log3)
                       else (False, m, log3)
                     else
                       (True,
                        m\<lparr>module_loaded_paths := insert path_name (module_loaded_paths m),
                          module_loaded := insert canonical_name (module_loaded m),
                          module_count := module_count m + 1\<rparr>,
                        log3))"

definition Rmmod ::
  "kernel \<Rightarrow> resolver \<Rightarrow> string \<Rightarrow> modprobe \<Rightarrow> bool \<times> modprobe \<times> call list" where
  "Rmmod K R module_name m =
     (let canonical_name = MakeCanonical R module_name;
          ret = delete_module K canonical_name O_NONBLOCK;
          log = [CallMakeCanonical module_name canonical_name,
                 CallDeleteModule canonical_name O_NONBLOCK ret]
      in if ret \<noteq> 0 then (False, m, log)
         else (True, m\<lparr>module_loaded := module_loaded m - {canonical_name}\<rparr>, log))"

definition ModuleExists ::
  "kernel \<Rightarrow> resolver \<Rightarrow> string \<Rightarrow> modprobe \<Rightarrow> bool \<times> modprobe \<times> call list" where
  "ModuleExists K R module_name m =
     (if blocklist_enabled m \<and> module_name \<in> module_blocklist m then (False, m, [])
      else
        let deps = GetDependencies R module_name;
            log1 = [CallGetDependencies module_name deps]
        in case deps of
             [] \<Rightarrow> (False, m, log1)
           | front # _ \<Rightarrow>
               (case stat_file K front of
                  (ret, st_mode) \<Rightarrow>
                    let log2 = log1 @ [CallStat front ret st_mode]
                    in if ret \<noteq> 0 then (False, m, log2)
                       else if \<not> S_ISREG st_mode then (False, m, log2)
                       else (True, m, log2)))"

section \<open>Example hosts and kernels\<close>

text \<open>
  Concrete parameters on which the theorems below are instantiated. The world of the
  example hosts counts the loads made so far.
\<close>

definition example_entries :: "dirent list" where
  "example_entries =
     [\<lparr>d_name = ''.'', d_type = DT_DIR\<rparr>, \<lparr>d_name = ''..'', d_type = DT_DIR\<rparr>,
      \<lparr>d_name = ''6.1.0-gki'', d_type = DT_DIR\<rparr>, \<lparr>d_name = ''6.1'', d_type = DT_DIR\<rparr>,
      \<lparr>d_name = ''5.4.0'', d_type = DT_DIR\<rparr>, \<lparr>d_name = ''6.1.0-notes'', d_type = DT_REG\<rparr>]"

definition example_host_empty :: "nat host" where
  "example_host_empty =
     \<lparr>uname_release = Some ''6.1.0'', sc_page_size = 4096,
      opendir_base = Some example_entries, hardware_concurrency = 8,
      stat_fails = (\<lambda>path w. True),
      LoadListedModules = (\<lambda>dir file w. ((True, 0), Suc w)),
      LoadModulesParallel = (\<lambda>dir file threads w. ((False, 0), Suc w))\<rparr>"

definition example_host_gki :: "nat host" where
  "example_host_gki =
     \<lparr>uname_release = Some ''6.1.0'', sc_page_size = 4096,
      opendir_base = Some example_entries, hardware_concurrency = 8,
      stat_fails = (\<lambda>path w. path \<noteq> ''/lib/modules/6.1.0-gki/modules.load.recovery''),
      LoadListedModules =
        (\<lambda>dir file w. ((False, if dir = ''/lib/modules/6.1.0-gki'' then 12 else 0), Suc w)),
      LoadModulesParallel = (\<lambda>dir file threads w. ((True, 40), Suc w))\<rparr>"

definition example_host_closed :: "nat host" where
  "example_host_closed = example_host_gki\<lparr>opendir_base := None\<rparr>"

definition example_resolver :: resolver where
  "example_resolver =
     \<lparr>MakeCanonical = (\<lambda>name. if name = ''/lib/modules/6.1.0/snd-soc.ko'' then ''snd_soc''
                               else name),
      GetDependencies =
        (\<lambda>name. if name = ''snd_soc'' then [''/lib/modules/6.1.0/snd-soc.ko'']
                 else if name = ''dir_mod'' then [''/lib/modules/6.1.0/dir_mod.ko'']
                 else [])\<rparr>"

definition example_kernel_fresh :: kernel where
  "example_kernel_fresh =
     \<lparr>open_retry = (\<lambda>path. 3),
      finit_module = (\<lambda>fd options flags. (0, 0)),
      delete_module = (\<lambda>name flags. 0),
      stat_file = (\<lambda>path. if path = ''/lib/modules/6.1.0/dir_mod.ko'' then (0, 0x41ED)
                            else (0, 0x81A4))\<rparr>"

definition example_kernel_resident :: kernel where
  "example_kernel_resident =
     \<lparr>open_retry = (\<lambda>path. 3),
      finit_module = (\<lambda>fd options flags. (- 1, EEXIST)),
      delete_module = (\<lambda>name flags. - 1),
      stat_file = (\<lambda>path. (- 1, 0))\<rparr>"

definition example_modprobe :: modprobe where
  "example_modprobe =
     \<lparr>module_options = [''snd_soc'' \<mapsto> ''param=1''],
      module_blocklist = {''evil''},
      blocklist_enabled = True,
      module_loaded_paths = {},
      module_loaded = {},
      module_count = 0\<rparr>"

section \<open>Directory selection: properties\<close>

subsection \<open>The \<^verbatim>\<open>readdir\<close> loop\<close>

lemma select_module_dirs_exact:
  "e \<in> set entries \<Longrightarrow> d_type e = DT_DIR \<Longrightarrow> d_name e = rsd \<Longrightarrow>
   select_module_dirs ps sfx rsd major minor entries acc = [rsd]"
proof (induction entries arbitrary: acc)
  case Nil
  then show ?case by simp
next
  case (Cons x xs)
  show ?case
  proof (cases "x = e")
    case True
    with Cons.prems show ?thesis by simp
  next
    case False
    with Cons.prems have "e \<in> set xs" by simp
    then have IH: "\<And>acc. select_module_dirs ps sfx rsd major minor xs acc = [rsd]"
      using Cons.IH Cons.prems by blast
    show ?thesis
      by (simp add: IH Let_def split: prod.split)
  qed
qed

text \<open>
  Without a release-specific directory the loop is a filter: it keeps the directories whose
  name scans to the host's two numbers. The test on the page-size suffix compares the
  host's suffix with itself and never removes an entry.
\<close>

lemma select_module_dirs_no_exact:
  "\<forall>e\<in>set entries. d_type e = DT_DIR \<longrightarrow> d_name e \<noteq> rsd \<Longrightarrow>
   select_module_dirs ps sfx rsd major minor entries acc =
     acc @ map d_name (filter (\<lambda>e. d_type e = DT_DIR \<and>
        (GetPageSizeSuffix ps = [] \<or> GetPageSizeSuffix ps = sfx) \<and>
        sscanf_d_dot_d (d_name e) 0 0 = (2, major, minor)) entries)"
proof (induction entries arbitrary: acc)
  case Nil
  then show ?case by simp
next
  case (Cons x xs)
  then have IH: "\<And>acc. select_module_dirs ps sfx rsd major minor xs acc =
     acc @ map d_name (filter (\<lambda>e. d_type e = DT_DIR \<and>
        (GetPageSizeSuffix ps = [] \<or> GetPageSizeSuffix ps = sfx) \<and>
        sscanf_d_dot_d (d_name e) 0 0 = (2, major, minor)) xs)"
    by simp
  from Cons.prems have X: "d_type x = DT_DIR \<longrightarrow> d_name x \<noteq> rsd" by simp
  show ?case
    using X by (auto simp: IH Let_def split: prod.split)
qed

lemma candidate_dirs_no_exact:
  assumes "\<forall>e\<in>set entries. d_type e = DT_DIR \<longrightarrow>
             d_name e \<noteq> release @ GetPageSizeSuffix page_size"
  shows "candidate_dirs release page_size entries =
    sort (map d_name (filter (\<lambda>e. d_type e = DT_DIR \<and>
        sscanf_d_dot_d (d_name e) 0 0 =
          (2, fst (snd (sscanf_d_dot_d release 0 0)), snd (snd (sscanf_d_dot_d release 0 0))))
        entries))"
  using select_module_dirs_no_exact [OF assms]
  by (simp add: candidate_dirs_def Let_def split: prod.split)

lemma GetPageSizeSuffix_4K: "GetPageSizeSuffix 4096 = []"
  by code_simp

lemma GetPageSizeSuffix_16K: "GetPageSizeSuffix 16384 = ''_16k''"
  by code_simp

lemma sorted_6_1_dirs: "sorted [''6.1'', ''6.1.0-gki'']"
  by code_simp

subsection \<open>Suffix exclusion\<close>

text \<open>
  C1. The claim: on a host whose page-size suffix is empty (4K pages), a directory named
  \<open>6.1.0_16k\<close> is left out of the candidate list while \<open>6.1.0\<close> stays in it. The code
  keeps both: on a 4K host running release \<open>6.1.0-gki\<close>, with the two directories in
  \<^verbatim>\<open>/lib/modules\<close>, the candidate list holds \<open>6.1.0\<close> and \<open>6.1.0_16k\<close>. The suffix that
  line 82 computes for the directory is the host's own (\<^verbatim>\<open>GetPageSizeSuffix()\<close> takes no
  argument), so the test of line 83 is never true.
\<close>

theorem suffix_exclusion_not_applied:
  "GetPageSizeSuffix 4096 = [] \<and>
   candidate_dirs ''6.1.0-gki'' 4096
     [\<lparr>d_name = ''6.1.0_16k'', d_type = DT_DIR\<rparr>, \<lparr>d_name = ''6.1.0'', d_type = DT_DIR\<rparr>]
   = [''6.1.0'', ''6.1.0_16k'']"
  by code_simp

subsection \<open>The example of release 6.1.0\<close>

text \<open>
  C2, as stated: for release \<open>6.1.0\<close>, no page-size suffix and the directories
  \<open>6.1.0-gki\<close>, \<open>6.1\<close> and \<open>5.4.0\<close>, the candidate list is \<open>6.1.0-gki\<close> alone. It is not:
  the candidate list differs from that singleton.
\<close>

theorem candidate_dirs_example_counterexample:
  "candidate_dirs ''6.1.0'' 4096
     [\<lparr>d_name = ''6.1.0-gki'', d_type = DT_DIR\<rparr>, \<lparr>d_name = ''6.1'', d_type = DT_DIR\<rparr>,
      \<lparr>d_name = ''5.4.0'', d_type = DT_DIR\<rparr>]
   \<noteq> [''6.1.0-gki'']"
  by code_simp

text \<open>
  C2, amended: for release \<open>6.1.0\<close>, no page-size suffix and the directories
  \<open>6.1.0-gki\<close>, \<open>6.1\<close> and \<open>5.4.0\<close>, returned by \<^verbatim>\<open>readdir\<close> in any order, the candidate list
  is \<open>6.1\<close> followed by \<open>6.1.0-gki\<close>. No name equals the release, so there is no
  release-specific match; both names that start with \<open>6.1\<close> are kept, in sorted order, and
  \<open>5.4.0\<close> is left out.
\<close>

theorem candidate_dirs_example_any_order:
  assumes "mset entries =
    {#\<lparr>d_name = ''6.1.0-gki'', d_type = DT_DIR\<rparr>, \<lparr>d_name = ''6.1'', d_type = DT_DIR\<rparr>,
      \<lparr>d_name = ''5.4.0'', d_type = DT_DIR\<rparr>#}"
  shows "candidate_dirs ''6.1.0'' 4096 entries = [''6.1'', ''6.1.0-gki'']"
proof -
  let ?P = "\<lambda>e. d_type e = DT_DIR \<and>
        sscanf_d_dot_d (d_name e) 0 0 =
          (2, fst (snd (sscanf_d_dot_d ''6.1.0'' 0 0)), snd (snd (sscanf_d_dot_d ''6.1.0'' 0 0)))"
  have P1: "?P \<lparr>d_name = ''6.1.0-gki'', d_type = DT_DIR\<rparr>" by code_simp
  have P2: "?P \<lparr>d_name = ''6.1'', d_type = DT_DIR\<rparr>" by code_simp
  have P3: "\<not> ?P \<lparr>d_name = ''5.4.0'', d_type = DT_DIR\<rparr>" by code_simp
  have "set entries = set_mset (mset entries)" by simp
  also have "\<dots> = {\<lparr>d_name = ''6.1.0-gki'', d_type = DT_DIR\<rparr>,
      \<lparr>d_name = ''6.1'', d_type = DT_DIR\<rparr>, \<lparr>d_name = ''5.4.0'', d_type = DT_DIR\<rparr>}"
    unfolding assms by simp
  finally have S: "set entries = {\<lparr>d_name = ''6.1.0-gki'', d_type = DT_DIR\<rparr>,
      \<lparr>d_name = ''6.1'', d_type = DT_DIR\<rparr>, \<lparr>d_name = ''5.4.0'', d_type = DT_DIR\<rparr>}" .
  have noex: "\<forall>e\<in>set entries. d_type e = DT_DIR \<longrightarrow>
      d_name e \<noteq> ''6.1.0'' @ GetPageSizeSuffix 4096"
    unfolding S GetPageSizeSuffix_4K by simp
  have "mset (map d_name (filter ?P entries)) = image_mset d_name (filter_mset ?P (mset entries))"
    by simp
  also have "\<dots> = {#''6.1.0-gki'', ''6.1''#}"
    unfolding assms using P1 P2 P3 by simp
  also have "\<dots> = mset [''6.1'', ''6.1.0-gki'']" by simp
  finally have M: "mset [''6.1'', ''6.1.0-gki''] = mset (map d_name (filter ?P entries))"
    by simp
  have "sort (map d_name (filter ?P entries)) = [''6.1'', ''6.1.0-gki'']"
    using M sorted_6_1_dirs by (rule properties_for_sort)
  then show ?thesis
    using candidate_dirs_no_exact [OF noex] by simp
qed

theorem candidate_dirs_example_any_order_witness:
  "mset [\<lparr>d_name = ''5.4.0'', d_type = DT_DIR\<rparr>, \<lparr>d_name = ''6.1.0-gki'', d_type = DT_DIR\<rparr>,
         \<lparr>d_name = ''6.1'', d_type = DT_DIR\<rparr>] =
    {#\<lparr>d_name = ''6.1.0-gki'', d_type = DT_DIR\<rparr>, \<lparr>d_name = ''6.1'', d_type = DT_DIR\<rparr>,
      \<lparr>d_name = ''5.4.0'', d_type = DT_DIR\<rparr>#} \<and>
   candidate_dirs ''6.1.0'' 4096
     [\<lparr>d_name = ''5.4.0'', d_type = DT_DIR\<rparr>, \<lparr>d_name = ''6.1.0-gki'', d_type = DT_DIR\<rparr>,
      \<lparr>d_name = ''6.1'', d_type = DT_DIR\<rparr>] = [''6.1'', ''6.1.0-gki'']"
proof -
  have h: "mset [\<lparr>d_name = ''5.4.0'', d_type = DT_DIR\<rparr>,
         \<lparr>d_name = ''6.1.0-gki'', d_type = DT_DIR\<rparr>, \<lparr>d_name = ''6.1'', d_type = DT_DIR\<rparr>] =
    {#\<lparr>d_name = ''6.1.0-gki'', d_type = DT_DIR\<rparr>, \<lparr>d_name = ''6.1'', d_type = DT_DIR\<rparr>,
      \<lparr>d_name = ''5.4.0'', d_type = DT_DIR\<rparr>#}"
    by (simp add: add_mset_commute)
  from h candidate_dirs_example_any_order [OF h] show ?thesis by blast
qed

subsection \<open>The release-specific directory\<close>

text \<open>
  C3. Whatever \<^verbatim>\<open>readdir\<close> returns and in whatever order: if one of the entries is a
  directory whose name is the kernel release followed by the host's page-size suffix, the
  candidate list of \<^verbatim>\<open>LoadKernelModules\<close> is that name alone. Names collected before the
  entry are dropped and entries after it add nothing.
\<close>

theorem candidate_dirs_release_specific:
  assumes "\<exists>e\<in>set entries.
             d_type e = DT_DIR \<and> d_name e = release @ GetPageSizeSuffix page_size"
  shows "candidate_dirs release page_size entries = [release @ GetPageSizeSuffix page_size]"
proof -
  from assms obtain e where "e \<in> set entries" "d_type e = DT_DIR"
    "d_name e = release @ GetPageSizeSuffix page_size" by blast
  then have "select_module_dirs page_size (GetPageSizeSuffix page_size)
      (release @ GetPageSizeSuffix page_size) major minor entries [] =
      [release @ GetPageSizeSuffix page_size]" for major minor
    by (rule select_module_dirs_exact)
  then show ?thesis
    by (simp add: candidate_dirs_def Let_def split: prod.split)
qed

theorem candidate_dirs_release_specific_witness:
  "\<lparr>d_name = ''6.1.0_16k'', d_type = DT_DIR\<rparr> \<in>
     set [\<lparr>d_name = ''6.1.0-gki'', d_type = DT_DIR\<rparr>, \<lparr>d_name = ''6.1.0_16k'', d_type = DT_DIR\<rparr>,
          \<lparr>d_name = ''6.1.0'', d_type = DT_DIR\<rparr>] \<and>
   ''6.1.0_16k'' = ''6.1.0'' @ GetPageSizeSuffix 16384 \<and>
   candidate_dirs ''6.1.0'' 16384
     [\<lparr>d_name = ''6.1.0-gki'', d_type = DT_DIR\<rparr>, \<lparr>d_name = ''6.1.0_16k'', d_type = DT_DIR\<rparr>,
      \<lparr>d_name = ''6.1.0'', d_type = DT_DIR\<rparr>] = [''6.1.0_16k'']"
proof -
  have h: "\<exists>e\<in>set [\<lparr>d_name = ''6.1.0-gki'', d_type = DT_DIR\<rparr>,
          \<lparr>d_name = ''6.1.0_16k'', d_type = DT_DIR\<rparr>, \<lparr>d_name = ''6.1.0'', d_type = DT_DIR\<rparr>].
      d_type e = DT_DIR \<and> d_name e = ''6.1.0'' @ GetPageSizeSuffix 16384"
    by (simp add: GetPageSizeSuffix_16K)
  from candidate_dirs_release_specific [OF h] show ?thesis
    by (simp add: GetPageSizeSuffix_16K)
qed

section \<open>Load strategy: properties\<close>

subsection \<open>The loop over the candidate directories\<close>

text \<open>
  What the loop adds to the log: one ordered-list load for each directory it reached, in
  the order of the candidate list. When the loop ran to its end, it reached every
  directory and none reported a positive count. When it returned, the last load is the
  only one with a positive count, and its results are the results of the function.
\<close>

lemma load_listed_dirs_log:
  "load_listed_dirs H dirs ml w log = (r, ml', w', log') \<Longrightarrow>
   \<exists>new. log' = log @ new \<and> (\<forall>e\<in>set new. is_listed e) \<and>
     map event_dir new = take (length new) (map (\<lambda>d. MODULE_BASE_DIR @ ''/'' @ d) dirs) \<and>
     (case r of
        None \<Rightarrow> length new = length dirs \<and> (\<forall>e\<in>set new. \<not> 0 <s event_count e)
      | Some retval \<Rightarrow>
          new \<noteq> [] \<and> (\<forall>e\<in>set (butlast new). \<not> 0 <s event_count e) \<and>
          0 <s event_count (last new) \<and> ml' = event_count (last new) \<and>
          retval = event_retval (last new))"
proof (induction dirs arbitrary: ml w log)
  case Nil
  then show ?case by auto
next
  case (Cons d ds)
  obtain retval n w1 where L: "LoadListedModules H (MODULE_BASE_DIR @ ''/'' @ d)
      (GetModuleLoadList H (MODULE_BASE_DIR @ ''/'' @ d) w) w = ((retval, n), w1)"
    by (metis surj_pair)
  let ?ev = "ListedLoad (MODULE_BASE_DIR @ ''/'' @ d)
      (GetModuleLoadList H (MODULE_BASE_DIR @ ''/'' @ d) w) retval n"
  show ?case
  proof (cases "0 <s n")
    case True
    with Cons.prems L have "r = Some retval" "ml' = n" "log' = log @ [?ev]"
      by (auto simp: Let_def)
    then show ?thesis using True
      by (intro exI [of _ "[?ev]"]) simp
  next
    case False
    with Cons.prems L have "load_listed_dirs H ds n w1 (log @ [?ev]) = (r, ml', w', log')"
      by (simp add: Let_def)
    from Cons.IH [OF this] obtain new where
      N: "log' = (log @ [?ev]) @ new" "\<forall>e\<in>set new. is_listed e"
        "map event_dir new = take (length new) (map (\<lambda>d. MODULE_BASE_DIR @ ''/'' @ d) ds)"
        "(case r of
            None \<Rightarrow> length new = length ds \<and> (\<forall>e\<in>set new. \<not> 0 <s event_count e)
          | Some retval \<Rightarrow>
              new \<noteq> [] \<and> (\<forall>e\<in>set (butlast new). \<not> 0 <s event_count e) \<and>
              0 <s event_count (last new) \<and> ml' = event_count (last new) \<and>
              retval = event_retval (last new))"
      by blast
    show ?thesis
      using N False
      by (intro exI [of _ "?ev # new"]) (auto split: option.splits)
  qed
qed

lemma filter_is_parallel_listed:
  "\<forall>e\<in>set xs. is_listed e \<Longrightarrow> filter is_parallel xs = []"
proof (induction xs)
  case Nil
  then show ?case by simp
next
  case (Cons x xs)
  then show ?case by (cases x) simp_all
qed

lemma run_example_host_empty:
  "LoadKernelModules example_host_empty 7 0 =
     (True, 0, 3,
      [ListedLoad ''/lib/modules/6.1'' ''modules.load'' True 0,
       ListedLoad ''/lib/modules/6.1.0-gki'' ''modules.load'' True 0,
       ParallelLoad ''/lib/modules'' ''modules.load'' 8 False 0])"
  by code_simp

lemma run_example_host_gki:
  "LoadKernelModules example_host_gki 7 0 =
     (False, 12, 2,
      [ListedLoad ''/lib/modules/6.1'' ''modules.load'' False 0,
       ListedLoad ''/lib/modules/6.1.0-gki'' ''modules.load.recovery'' False 12])"
  by code_simp

subsection \<open>The base directory cannot be opened\<close>

text \<open>
  C9. When \<^verbatim>\<open>opendir("/lib/modules")\<close> fails, \<^verbatim>\<open>LoadKernelModules\<close> returns true, starts no
  load (the log is empty and the world is untouched) and leaves the caller's
  \<^verbatim>\<open>modules_loaded\<close> as it was.
\<close>

theorem LoadKernelModules_no_base_dir:
  assumes "opendir_base H = None"
  shows "LoadKernelModules H modules_loaded w = (True, modules_loaded, w, [])"
  using assms by (simp add: LoadKernelModules_def)

theorem LoadKernelModules_no_base_dir_witness:
  "opendir_base example_host_closed = None \<and>
   LoadKernelModules example_host_closed 7 0 = (True, 7, 0, [])"
proof -
  have h: "opendir_base example_host_closed = None"
    by (simp add: example_host_closed_def)
  from h LoadKernelModules_no_base_dir [OF h] show ?thesis by simp
qed

subsection \<open>The parallel fallback\<close>

text \<open>
  C5. Take a run of \<^verbatim>\<open>LoadKernelModules\<close> in which the base directory was opened (C9 is the
  other case), and its log of loads.
  \<^item> If no ordered-list load of the run reported a positive count, then the log has exactly
    one parallel load; it is the last entry and it is on \<^verbatim>\<open>/lib/modules\<close>; before it comes
    one ordered-list load for every candidate directory, in order; \<^verbatim>\<open>modules_loaded\<close> is
    the count of the parallel load, whatever it is; and the function returns true when
    that count is zero (or not positive), and the return value of the parallel load
    otherwise.
  \<^item> If some ordered-list load reported a positive count, it is the last entry of the log:
    the loads before it reported none, no later directory was tried, no parallel load was
    made, and the function returns that load's return value and count.
\<close>

theorem LoadKernelModules_fallback:
  assumes "opendir_base H = Some entries"
    and "LoadKernelModules H modules_loaded w = (ret, modules_loaded', w', log)"
  shows
    "((\<forall>e\<in>set log. is_listed e \<longrightarrow> \<not> 0 <s event_count e) \<longrightarrow>
        length (filter is_parallel log) = 1 \<and>
        is_parallel (last log) \<and> event_dir (last log) = MODULE_BASE_DIR \<and>
        map event_dir (butlast log) =
          map (\<lambda>d. MODULE_BASE_DIR @ ''/'' @ d)
            (candidate_dirs (uts_release H) (sc_page_size H) entries) \<and>
        modules_loaded' = event_count (last log) \<and>
        (\<not> 0 <s event_count (last log) \<longrightarrow> ret) \<and>
        (0 <s event_count (last log) \<longrightarrow> ret = event_retval (last log))) \<and>
     ((\<exists>e\<in>set log. is_listed e \<and> 0 <s event_count e) \<longrightarrow>
        filter is_parallel log = [] \<and>
        is_listed (last log) \<and> 0 <s event_count (last log) \<and>
        (\<forall>e\<in>set (butlast log). \<not> 0 <s event_count e) \<and>
        map event_dir log =
          take (length log) (map (\<lambda>d. MODULE_BASE_DIR @ ''/'' @ d)
            (candidate_dirs (uts_release H) (sc_page_size H) entries)) \<and>
        modules_loaded' = event_count (last log) \<and>
        ret = event_retval (last log))"
proof -
  let ?dirs = "candidate_dirs (uts_release H) (sc_page_size H) entries"
  obtain r ml1 w1 log1 where L: "load_listed_dirs H ?dirs modules_loaded w [] = (r, ml1, w1, log1)"
    by (metis prod_cases4)
  from load_listed_dirs_log [OF L] have
    N: "\<forall>e\<in>set log1. is_listed e"
      "map event_dir log1 = take (length log1) (map (\<lambda>d. MODULE_BASE_DIR @ ''/'' @ d) ?dirs)"
      "(case r of
          None \<Rightarrow> length log1 = length ?dirs \<and> (\<forall>e\<in>set log1. \<not> 0 <s event_count e)
        | Some retval \<Rightarrow>
            log1 \<noteq> [] \<and> (\<forall>e\<in>set (butlast log1). \<not> 0 <s event_count e) \<and>
            0 <s event_count (last log1) \<and> ml1 = event_count (last log1) \<and>
            retval = event_retval (last log1))"
    by auto
  have NP: "filter is_parallel log1 = []"
    using N(1) by (rule filter_is_parallel_listed)
  show ?thesis
  proof (cases r)
    case (Some retval)
    with assms L have E: "ret = retval" "modules_loaded' = ml1" "log = log1"
      by (simp_all add: LoadKernelModules_def Let_def)
    from N(3) Some have S: "log1 \<noteq> []" "\<forall>e\<in>set (butlast log1). \<not> 0 <s event_count e"
      "0 <s event_count (last log1)" "ml1 = event_count (last log1)"
      "retval = event_retval (last log1)"
      by simp_all
    from S(1) have "last log1 \<in> set log1" by simp
    with N(1) S(3) have X: "is_listed (last log1)" "\<exists>e\<in>set log1. is_listed e \<and> 0 <s event_count e"
      by blast+
    show ?thesis
      unfolding E using N(2) NP S X by blast
  next
    case None
    obtain retval n w2 where P: "LoadModulesParallel H MODULE_BASE_DIR
        (GetModuleLoadList H MODULE_BASE_DIR w1) (hardware_concurrency H) w1 = ((retval, n), w2)"
      by (metis surj_pair)
    let ?ev = "ParallelLoad MODULE_BASE_DIR (GetModuleLoadList H MODULE_BASE_DIR w1)
        (hardware_concurrency H) retval n"
    from assms L None P have E: "log = log1 @ [?ev]" "modules_loaded' = n"
      "ret = (if 0 <s n then retval else True)"
      by (auto simp: LoadKernelModules_def Let_def split: if_splits)
    from N(3) None have Z: "length log1 = length ?dirs" "\<forall>e\<in>set log1. \<not> 0 <s event_count e"
      by simp_all
    from N(2) Z(1) have D: "map event_dir log1 = map (\<lambda>d. MODULE_BASE_DIR @ ''/'' @ d) ?dirs"
      by simp
    have no: "\<not> (\<exists>e\<in>set log. is_listed e \<and> 0 <s event_count e)"
      unfolding E using Z(2) by auto
    show ?thesis
      using no D NP unfolding E by simp
  qed
qed

theorem LoadKernelModules_fallback_witness:
  "opendir_base example_host_empty = Some example_entries \<and>
   LoadKernelModules example_host_empty 7 0 =
     (True, 0, 3,
      [ListedLoad ''/lib/modules/6.1'' ''modules.load'' True 0,
       ListedLoad ''/lib/modules/6.1.0-gki'' ''modules.load'' True 0,
       ParallelLoad ''/lib/modules'' ''modules.load'' 8 False 0]) \<and>
   length (filter is_parallel
      [ListedLoad ''/lib/modules/6.1'' ''modules.load'' True 0,
       ListedLoad ''/lib/modules/6.1.0-gki'' ''modules.load'' True 0,
       ParallelLoad ''/lib/modules'' ''modules.load'' 8 False 0]) = 1 \<and>
   candidate_dirs (uts_release example_host_empty) (sc_page_size example_host_empty)
     example_entries = [''6.1'', ''6.1.0-gki''] \<and>
   opendir_base example_host_gki = Some example_entries \<and>
   LoadKernelModules example_host_gki 7 0 =
     (False, 12, 2,
      [ListedLoad ''/lib/modules/6.1'' ''modules.load'' False 0,
       ListedLoad ''/lib/modules/6.1.0-gki'' ''modules.load.recovery'' False 12]) \<and>
   filter is_parallel
      [ListedLoad ''/lib/modules/6.1'' ''modules.load'' False 0,
       ListedLoad ''/lib/modules/6.1.0-gki'' ''modules.load.recovery'' False 12] = []"
proof -
  let ?log1 = "[ListedLoad ''/lib/modules/6.1'' ''modules.load'' True 0,
       ListedLoad ''/lib/modules/6.1.0-gki'' ''modules.load'' True 0,
       ParallelLoad ''/lib/modules'' ''modules.load'' 8 False 0]"
  let ?log2 = "[ListedLoad ''/lib/modules/6.1'' ''modules.load'' False 0,
       ListedLoad ''/lib/modules/6.1.0-gki'' ''modules.load.recovery'' False 12]"
  have o1: "opendir_base example_host_empty = Some example_entries"
    by (simp add: example_host_empty_def)
  have o2: "opendir_base example_host_gki = Some example_entries"
    by (simp add: example_host_gki_def)
  have h1: "\<forall>e\<in>set ?log1. is_listed e \<longrightarrow> \<not> 0 <s event_count e"
    by simp
  have h2: "\<exists>e\<in>set ?log2. is_listed e \<and> 0 <s event_count e"
    by (simp add: word_sless_alt)
  from LoadKernelModules_fallback [OF o1 run_example_host_empty] h1
  have c1: "length (filter is_parallel ?log1) = 1"
    "map event_dir (butlast ?log1) =
       map (\<lambda>d. MODULE_BASE_DIR @ ''/'' @ d)
         (candidate_dirs (uts_release example_host_empty) (sc_page_size example_host_empty)
            example_entries)"
    by blast+
  from c1(2) have d1: "candidate_dirs (uts_release example_host_empty)
      (sc_page_size example_host_empty) example_entries = [''6.1'', ''6.1.0-gki'']"
    by (auto simp: MODULE_BASE_DIR_def Cons_eq_map_conv)
  from LoadKernelModules_fallback [OF o2 run_example_host_gki] h2
  have c2: "filter is_parallel ?log2 = []"
    by blast
  from o1 o2 run_example_host_empty run_example_host_gki c1(1) d1 c2 show ?thesis
    by blast
qed

section \<open>Module loader and registry: properties\<close>

subsection \<open>Insertion of a module that is already resident\<close>



subsection \<open>The option string\<close>

lemma c_str_no_NUL: "CHR 0x00 \<notin> set s \<Longrightarrow> c_str s = s"
  by (induction s) (auto simp: c_str_def)

lemma c_str_space: "c_str (CHR '' '' # s) = CHR '' '' # c_str s"
  by (simp add: c_str_def)

text \<open>
  C6. In a call of \<^verbatim>\<open>Insmod\<close> that opened the file, for a module whose canonical name has
  configured options: \<^verbatim>\<open>finit_module\<close> is called once, and the option string it gets is
  the C string of the configured options, one space and the caller's parameters when
  these are not empty, and the C string of the configured options alone when they are.
  For strings without a NUL byte that is: the configured options, one space and the
  parameters, configured options first; and the configured options unmodified when the
  parameters are empty. With \<open>param=1\<close> configured and \<open>param2=2\<close> given, the string is
  \<open>param=1 param2=2\<close>.
\<close>

theorem Insmod_options_order:
  assumes "Insmod K R path_name parameters m = (result, m', calls)"
    and "open_retry K path_name \<noteq> - 1"
    and "module_options m (MakeCanonical R path_name) = Some configured"
  shows
    "(parameters \<noteq> [] \<longrightarrow>
        finit_options calls = [c_str (configured @ '' '' @ parameters)]) \<and>
     (parameters = [] \<longrightarrow> finit_options calls = [c_str configured]) \<and>
     (CHR 0x00 \<notin> set configured \<and> CHR 0x00 \<notin> set parameters \<and> parameters \<noteq> [] \<longrightarrow>
        finit_options calls = [configured @ '' '' @ parameters]) \<and>
     (CHR 0x00 \<notin> set configured \<and> parameters = [] \<longrightarrow>
        finit_options calls = [configured]) \<and>
     (configured = ''param=1'' \<and> parameters = ''param2=2'' \<longrightarrow>
        finit_options calls = [''param=1 param2=2''])"
proof -
  have F: "finit_options calls =
      [c_str (if parameters \<noteq> [] then configured @ '' '' @ parameters else configured)]"
    using assms
    by (auto simp: Insmod_def Let_def split: if_splits prod.splits)
  have A: "finit_options calls = [c_str (configured @ '' '' @ parameters)]"
    if "parameters \<noteq> []"
    using F that by simp
  have B: "finit_options calls = [c_str configured]" if "parameters = []"
    using F that by simp
  have C: "finit_options calls = [configured @ '' '' @ parameters]"
    if "CHR 0x00 \<notin> set configured" "CHR 0x00 \<notin> set parameters" "parameters \<noteq> []"
  proof -
    from that have "CHR 0x00 \<notin> set (configured @ '' '' @ parameters)" by simp
    then have "c_str (configured @ '' '' @ parameters) = configured @ '' '' @ parameters"
      by (rule c_str_no_NUL)
    with A that show ?thesis by simp
  qed
  have D: "finit_options calls = [configured]"
    if "CHR 0x00 \<notin> set configured" "parameters = []"
    using B that by (simp add: c_str_no_NUL)
  have E: "finit_options calls = [''param=1 param2=2'']"
    if "configured = ''param=1''" "parameters = ''param2=2''"
    using F that by (simp add: c_str_def)
  from A B C D E show ?thesis by blast
qed

theorem Insmod_options_order_witness:
  "open_retry example_kernel_fresh ''/lib/modules/6.1.0/snd-soc.ko'' \<noteq> - 1 \<and>
   module_options example_modprobe
     (MakeCanonical example_resolver ''/lib/modules/6.1.0/snd-soc.ko'') = Some ''param=1'' \<and>
   CHR 0x00 \<notin> set ''param=1'' \<and> CHR 0x00 \<notin> set ''param2=2'' \<and>
   finit_options (snd (snd (Insmod example_kernel_fresh example_resolver
     ''/lib/modules/6.1.0/snd-soc.ko'' ''param2=2'' example_modprobe))) = [''param=1 param2=2''] \<and>
   finit_options (snd (snd (Insmod example_kernel_fresh example_resolver
     ''/lib/modules/6.1.0/snd-soc.ko'' [] example_modprobe))) = [''param=1''] \<and>
   finit_options (snd (snd (Insmod example_kernel_fresh example_resolver
     ''/lib/modules/6.1.0/snd-soc.ko'' [CHR ''a'', CHR 0x00, CHR ''b''] example_modprobe))) =
     [''param=1 a'']"
proof -
  let ?p = "''/lib/modules/6.1.0/snd-soc.ko''"
  have o: "open_retry example_kernel_fresh ?p \<noteq> - 1"
    by (simp add: example_kernel_fresh_def)
  have c: "module_options example_modprobe (MakeCanonical example_resolver ?p) = Some ''param=1''"
    by (simp add: example_modprobe_def example_resolver_def)
  have z: "CHR 0x00 \<notin> set ''param=1''" "CHR 0x00 \<notin> set ''param2=2''"
    by simp_all
  obtain r1 m1 c1 where i1: "Insmod example_kernel_fresh example_resolver ?p ''param2=2''
      example_modprobe = (r1, m1, c1)"
    by (metis prod_cases3)
  obtain r2 m2 c2 where i2: "Insmod example_kernel_fresh example_resolver ?p []
      example_modprobe = (r2, m2, c2)"
    by (metis prod_cases3)
  obtain r3 m3 c3 where i3: "Insmod example_kernel_fresh example_resolver ?p
      [CHR ''a'', CHR 0x00, CHR ''b''] example_modprobe = (r3, m3, c3)"
    by (metis prod_cases3)
  from Insmod_options_order [OF i1 o c] z
  have e1: "finit_options c1 = [''param=1'' @ '' '' @ ''param2=2'']"
    by blast
  from Insmod_options_order [OF i2 o c] z have e2: "finit_options c2 = [''param=1'']"
    by blast
  from Insmod_options_order [OF i3 o c]
  have "finit_options c3 = [c_str (''param=1'' @ '' '' @ [CHR ''a'', CHR 0x00, CHR ''b''])]"
    by blast
  then have e3: "finit_options c3 = [''param=1 a'']"
    by (simp add: c_str_def)
  from o c z i1 i2 i3 e1 e2 e3 show ?thesis by simp
qed

text \<open>
  C10. In a call of \<^verbatim>\<open>Insmod\<close> that opened the file, for a module whose canonical name has
  no configured options, with parameters that are not empty: the option string passed to
  \<^verbatim>\<open>finit_module\<close> is one space followed by the C string of the parameters, so it always
  begins with a space; for parameters without a NUL byte it is one space followed by the
  parameters.
\<close>

theorem Insmod_leading_space:
  assumes "Insmod K R path_name parameters m = (result, m', calls)"
    and "open_retry K path_name \<noteq> - 1"
    and "module_options m (MakeCanonical R path_name) = None"
    and "parameters \<noteq> []"
  shows
    "finit_options calls = [CHR '' '' # c_str parameters] \<and>
     (CHR 0x00 \<notin> set parameters \<longrightarrow> finit_options calls = [CHR '' '' # parameters])"
proof -
  have "finit_options calls = [c_str (CHR '' '' # parameters)]"
    using assms
    by (auto simp: Insmod_def Let_def split: if_splits prod.splits)
  then have F: "finit_options calls = [CHR '' '' # c_str parameters]"
    by (simp add: c_str_space)
  then show ?thesis
    by (simp add: c_str_no_NUL)
qed

theorem Insmod_leading_space_witness:
  "open_retry example_kernel_fresh ''/lib/modules/6.1.0/wifi.ko'' \<noteq> - 1 \<and>
   module_options example_modprobe
     (MakeCanonical example_resolver ''/lib/modules/6.1.0/wifi.ko'') = None \<and>
   ''debug=1'' \<noteq> [] \<and> CHR 0x00 \<notin> set ''debug=1'' \<and>
   finit_options (snd (snd (Insmod example_kernel_fresh example_resolver
     ''/lib/modules/6.1.0/wifi.ko'' ''debug=1'' example_modprobe))) = ['' debug=1''] \<and>
   [CHR ''a'', CHR 0x00, CHR ''b''] \<noteq> [] \<and>
   finit_options (snd (snd (Insmod example_kernel_fresh example_resolver
     ''/lib/modules/6.1.0/wifi.ko'' [CHR ''a'', CHR 0x00, CHR ''b''] example_modprobe))) =
     ['' a'']"
proof -
  let ?p = "''/lib/modules/6.1.0/wifi.ko''"
  have o: "open_retry example_kernel_fresh ?p \<noteq> - 1"
    by (simp add: example_kernel_fresh_def)
  have c: "module_options example_modprobe (MakeCanonical example_resolver ?p) = None"
    by (simp add: example_modprobe_def example_resolver_def)
  have n: "''debug=1'' \<noteq> []" "[CHR ''a'', CHR 0x00, CHR ''b''] \<noteq> []" by simp_all
  have z: "CHR 0x00 \<notin> set ''debug=1''" by simp
  obtain r1 m1 c1 where i1: "Insmod example_kernel_fresh example_resolver ?p ''debug=1''
      example_modprobe = (r1, m1, c1)"
    by (metis prod_cases3)
  obtain r2 m2 c2 where i2: "Insmod example_kernel_fresh example_resolver ?p
      [CHR ''a'', CHR 0x00, CHR ''b''] example_modprobe = (r2, m2, c2)"
    by (metis prod_cases3)
  from Insmod_leading_space [OF i1 o c n(1)] z have e1: "finit_options c1 = ['' debug=1'']"
    by blast
  from Insmod_leading_space [OF i2 o c n(2)]
  have "finit_options c2 = [CHR '' '' # c_str [CHR ''a'', CHR 0x00, CHR ''b'']]"
    by blast
  then have e2: "finit_options c2 = ['' a'']"
    by (simp add: c_str_def)
  from o c n z i1 i2 e1 e2 show ?thesis by simp
qed

subsection \<open>Removal\<close>

text \<open>
  C7. \<^verbatim>\<open>Rmmod\<close>: when \<^verbatim>\<open>delete_module\<close> returns 0, the call returns true and the only
  change is that the canonical name is no longer in the set of loaded names; the set of
  loaded paths and the count are as before. When \<^verbatim>\<open>delete_module\<close> fails, the call
  returns false and the state is unchanged.
\<close>

theorem Rmmod_frame:
  assumes "Rmmod K R name m = (result, m', calls)"
  shows
    "(delete_module K (MakeCanonical R name) O_NONBLOCK = 0 \<longrightarrow>
        result \<and>
        m' = m\<lparr>module_loaded := module_loaded m - {MakeCanonical R name}\<rparr> \<and>
        module_loaded_paths m' = module_loaded_paths m \<and>
        module_count m' = module_count m) \<and>
     (delete_module K (MakeCanonical R name) O_NONBLOCK \<noteq> 0 \<longrightarrow> \<not> result \<and> m' = m)"
  using assms
  by (auto simp: Rmmod_def Let_def split: if_splits)

theorem Rmmod_frame_witness:
  "delete_module example_kernel_fresh (MakeCanonical example_resolver ''snd_soc'') O_NONBLOCK = 0 \<and>
   Rmmod example_kernel_fresh example_resolver ''snd_soc''
     (example_modprobe\<lparr>module_loaded_paths := {''/lib/modules/6.1.0/snd-soc.ko''},
        module_loaded := {''snd_soc''}, module_count := 1\<rparr>) =
     (True,
      example_modprobe\<lparr>module_loaded_paths := {''/lib/modules/6.1.0/snd-soc.ko''},
        module_loaded := {}, module_count := 1\<rparr>,
      [CallMakeCanonical ''snd_soc'' ''snd_soc'', CallDeleteModule ''snd_soc'' O_NONBLOCK 0]) \<and>
   delete_module example_kernel_resident (MakeCanonical example_resolver ''snd_soc'')
     O_NONBLOCK \<noteq> 0 \<and>
   Rmmod example_kernel_resident example_resolver ''snd_soc''
     (example_modprobe\<lparr>module_loaded_paths := {''/lib/modules/6.1.0/snd-soc.ko''},
        module_loaded := {''snd_soc''}, module_count := 1\<rparr>) =
     (False,
      example_modprobe\<lparr>module_loaded_paths := {''/lib/modules/6.1.0/snd-soc.ko''},
        module_loaded := {''snd_soc''}, module_count := 1\<rparr>,
      [CallMakeCanonical ''snd_soc'' ''snd_soc'', CallDeleteModule ''snd_soc'' O_NONBLOCK (- 1)])"
proof -
  let ?m1 = "example_modprobe\<lparr>module_loaded_paths := {''/lib/modules/6.1.0/snd-soc.ko''},
        module_loaded := {''snd_soc''}, module_count := 1\<rparr>"
  have d1: "delete_module example_kernel_fresh (MakeCanonical example_resolver ''snd_soc'')
      O_NONBLOCK = 0"
    by (simp add: example_kernel_fresh_def)
  have d2: "delete_module example_kernel_resident (MakeCanonical example_resolver ''snd_soc'')
      O_NONBLOCK \<noteq> 0"
    by (simp add: example_kernel_resident_def)
  obtain r1 m1 c1 where i1: "Rmmod example_kernel_fresh example_resolver ''snd_soc'' ?m1 =
      (r1, m1, c1)"
    by (metis prod_cases3)
  obtain r2 m2 c2 where i2: "Rmmod example_kernel_resident example_resolver ''snd_soc'' ?m1 =
      (r2, m2, c2)"
    by (metis prod_cases3)
  have l1: "c1 = [CallMakeCanonical ''snd_soc'' ''snd_soc'',
      CallDeleteModule ''snd_soc'' O_NONBLOCK 0]"
    using i1 by (simp add: Rmmod_def Let_def example_kernel_fresh_def example_resolver_def)
  have l2: "c2 = [CallMakeCanonical ''snd_soc'' ''snd_soc'',
      CallDeleteModule ''snd_soc'' O_NONBLOCK (- 1)]"
    using i2 by (simp add: Rmmod_def Let_def example_kernel_resident_def example_resolver_def)
  from Rmmod_frame [OF i1] d1
  have "r1 \<and> m1 = ?m1\<lparr>module_loaded := module_loaded ?m1 -
      {MakeCanonical example_resolver ''snd_soc''}\<rparr>"
    by blast
  then have s1: "r1 \<and> m1 = example_modprobe\<lparr>module_loaded_paths :=
      {''/lib/modules/6.1.0/snd-soc.ko''}, module_loaded := {}, module_count := 1\<rparr>"
    by (simp add: example_resolver_def)
  from Rmmod_frame [OF i2] d2 have s2: "\<not> r2 \<and> m2 = ?m1" by blast
  from d1 d2 i1 i2 l1 l2 s1 s2 show ?thesis by simp
qed

subsection \<open>ModuleExists\<close>

text \<open>
  C8. \<^verbatim>\<open>ModuleExists\<close>: for a name on the blocklist, with the blocklist enabled, the
  result is false and nothing was called (\<^verbatim>\<open>GetDependencies\<close> in particular). Otherwise
  the result is false when the dependency list is empty, and when \<^verbatim>\<open>stat\<close> on its first
  entry fails or finds something that is not a regular file. The state of the \<^verbatim>\<open>Modprobe\<close>
  object is the same after every call.
\<close>

theorem ModuleExists_cases:
  assumes "ModuleExists K R name m = (result, m', calls)"
  shows
    "(blocklist_enabled m \<and> name \<in> module_blocklist m \<longrightarrow> \<not> result \<and> calls = []) \<and>
     (\<not> (blocklist_enabled m \<and> name \<in> module_blocklist m) \<and>
      GetDependencies R name = [] \<longrightarrow> \<not> result) \<and>
     (\<forall>front rest.
        \<not> (blocklist_enabled m \<and> name \<in> module_blocklist m) \<and>
        GetDependencies R name = front # rest \<and>
        (fst (stat_file K front) \<noteq> 0 \<or> \<not> S_ISREG (snd (stat_file K front))) \<longrightarrow>
          \<not> result) \<and>
     m' = m"
  using assms
  by (auto simp: ModuleExists_def Let_def split: if_splits prod.splits list.splits)

theorem ModuleExists_cases_witness:
  "blocklist_enabled example_modprobe \<and> ''evil'' \<in> module_blocklist example_modprobe \<and>
   ModuleExists example_kernel_fresh example_resolver ''evil'' example_modprobe =
     (False, example_modprobe, []) \<and>
   ''alias_only'' \<notin> module_blocklist example_modprobe \<and>
   GetDependencies example_resolver ''alias_only'' = [] \<and>
   fst (ModuleExists example_kernel_fresh example_resolver ''alias_only'' example_modprobe)
     = False \<and>
   ''snd_soc'' \<notin> module_blocklist example_modprobe \<and>
   GetDependencies example_resolver ''snd_soc'' = [''/lib/modules/6.1.0/snd-soc.ko''] \<and>
   fst (stat_file example_kernel_resident ''/lib/modules/6.1.0/snd-soc.ko'') \<noteq> 0 \<and>
   fst (ModuleExists example_kernel_resident example_resolver ''snd_soc'' example_modprobe)
     = False \<and>
   ''dir_mod'' \<notin> module_blocklist example_modprobe \<and>
   GetDependencies example_resolver ''dir_mod'' = [''/lib/modules/6.1.0/dir_mod.ko''] \<and>
   S_ISREG (snd (stat_file example_kernel_fresh ''/lib/modules/6.1.0/dir_mod.ko'')) = False \<and>
   fst (ModuleExists example_kernel_fresh example_resolver ''dir_mod'' example_modprobe)
     = False \<and>
   fst (snd (ModuleExists example_kernel_fresh example_resolver ''snd_soc'' example_modprobe))
     = example_modprobe"
proof -
  have b: "blocklist_enabled example_modprobe" "''evil'' \<in> module_blocklist example_modprobe"
    "''alias_only'' \<notin> module_blocklist example_modprobe"
    "''snd_soc'' \<notin> module_blocklist example_modprobe"
    "''dir_mod'' \<notin> module_blocklist example_modprobe"
    by (simp_all add: example_modprobe_def)
  have d: "GetDependencies example_resolver ''alias_only'' = []"
    "GetDependencies example_resolver ''snd_soc'' = [''/lib/modules/6.1.0/snd-soc.ko'']"
    "GetDependencies example_resolver ''dir_mod'' = [''/lib/modules/6.1.0/dir_mod.ko'']"
    by (simp_all add: example_resolver_def)
  have s: "fst (stat_file example_kernel_resident ''/lib/modules/6.1.0/snd-soc.ko'') \<noteq> 0"
    "\<not> S_ISREG (snd (stat_file example_kernel_fresh ''/lib/modules/6.1.0/dir_mod.ko''))"
    by (simp_all add: example_kernel_resident_def example_kernel_fresh_def S_ISREG_def)
  obtain r1 m1 c1 where i1: "ModuleExists example_kernel_fresh example_resolver ''evil''
      example_modprobe = (r1, m1, c1)"
    by (metis prod_cases3)
  obtain r2 m2 c2 where i2: "ModuleExists example_kernel_fresh example_resolver ''alias_only''
      example_modprobe = (r2, m2, c2)"
    by (metis prod_cases3)
  obtain r3 m3 c3 where i3: "ModuleExists example_kernel_resident example_resolver ''snd_soc''
      example_modprobe = (r3, m3, c3)"
    by (metis prod_cases3)
  obtain r4 m4 c4 where i4: "ModuleExists example_kernel_fresh example_resolver ''dir_mod''
      example_modprobe = (r4, m4, c4)"
    by (metis prod_cases3)
  obtain r5 m5 c5 where i5: "ModuleExists example_kernel_fresh example_resolver ''snd_soc''
      example_modprobe = (r5, m5, c5)"
    by (metis prod_cases3)
  from ModuleExists_cases [OF i1] b have e1: "\<not> r1 \<and> c1 = [] \<and> m1 = example_modprobe"
    by blast
  from ModuleExists_cases [OF i2] b d have e2: "\<not> r2" by blast
  from ModuleExists_cases [OF i3] b d s have e3: "\<not> r3" by blast
  from ModuleExists_cases [OF i4] b d s have e4: "\<not> r4" by blast
  from ModuleExists_cases [OF i5] have e5: "m5 = example_modprobe" by blast
  from b d s i1 i2 i3 i4 i5 e1 e2 e3 e4 e5 show ?thesis by simp
qed

end
